theory Spec2Isabelle
  imports Main "HOL-Library.Word"
begin

section \<open>Bytes, text and exceptions\<close>

text \<open>
  A Python \<open>bytes\<close>/\<open>bytearray\<close> value is a list of 8-bit words, a Python \<open>int\<close> is an
  \<open>int\<close>, and a Python \<open>str\<close> is the list of its Unicode code points. Every exception the
  modelled code can raise is a constructor of \<open>error\<close>; a function that can raise returns
  \<open>error + 'a\<close> with \<open>Inl\<close> for the exception.
\<close>

type_synonym byte = "8 word"
type_synonym pystr = "nat list"

datatype error =
    InvalidVolume
  | InvalidLedBrightness
  | InvalidDeviceName
  | InvalidCallbackID
  | ValueError
  | KeyError
  | IndexError
  | TypeError
  | AttributeError
  | UnicodeDecodeError
  | SystemExit int
  | TransportError

definition ascii :: "string \<Rightarrow> pystr" where
  "ascii s = map of_char s"

text \<open>\<open>data[i]\<close> for a non-negative index: IndexError out of range.\<close>

definition getitem :: "'a list \<Rightarrow> nat \<Rightarrow> error + 'a" where
  "getitem xs i = (if i < length xs then Inr (xs ! i) else Inl IndexError)"

text \<open>
  \<open>bytes.decode()\<close>: strict UTF-8. Overlong forms, surrogates, code points above
  U+10FFFF, stray continuation bytes and truncated sequences are rejected.
\<close>

definition cont :: "nat \<Rightarrow> bool" where
  "cont b = (128 \<le> b \<and> b < 192)"

fun utf8_decode :: "nat list \<Rightarrow> pystr option" where
  "utf8_decode [] = Some []"
| "utf8_decode (b0 # bs) =
     (if b0 < 128 then map_option ((#) b0) (utf8_decode bs)
      else if 194 \<le> b0 \<and> b0 < 224 then
        (case bs of
           b1 # r \<Rightarrow>
             if cont b1
             then map_option ((#) ((b0 - 192) * 64 + (b1 - 128))) (utf8_decode r)
             else None
         | _ \<Rightarrow> None)
      else if 224 \<le> b0 \<and> b0 < 240 then
        (case bs of
           b1 # b2 # r \<Rightarrow>
             if (if b0 = 224 then 160 else 128) \<le> b1
                \<and> b1 \<le> (if b0 = 237 then 159 else 191) \<and> cont b2
             then map_option
                    ((#) ((b0 - 224) * 4096 + (b1 - 128) * 64 + (b2 - 128)))
                    (utf8_decode r)
             else None
         | _ \<Rightarrow> None)
      else if 240 \<le> b0 \<and> b0 < 245 then
        (case bs of
           b1 # b2 # b3 # r \<Rightarrow>
             if (if b0 = 240 then 144 else 128) \<le> b1
                \<and> b1 \<le> (if b0 = 244 then 143 else 191) \<and> cont b2 \<and> cont b3
             then map_option
                    ((#) ((b0 - 240) * 262144 + (b1 - 128) * 4096
                          + (b2 - 128) * 64 + (b3 - 128)))
                    (utf8_decode r)
             else None
         | _ \<Rightarrow> None)
      else None)"

definition decode :: "byte list \<Rightarrow> error + pystr" where
  "decode bs =
     (case utf8_decode (map unat bs) of
        None \<Rightarrow> Inl UnicodeDecodeError
      | Some s \<Rightarrow> Inr s)"

text \<open>\<open>str(i)\<close> for an int: decimal digits, with a minus sign when negative.\<close>

fun digits :: "nat \<Rightarrow> pystr" where
  "digits n = (if n < 10 then [48 + n] else digits (n div 10) @ [48 + n mod 10])"

definition str_int :: "int \<Rightarrow> pystr" where
  "str_int i = (if i < 0 then 45 # digits (nat (- i)) else digits (nat i))"







text \<open>\<open>bytearray(ints)\<close>: ValueError unless every element is in \<open>range(256)\<close>.\<close>

fun bytearray :: "int list \<Rightarrow> error + byte list" where
  "bytearray [] = Inr []"
| "bytearray (i # rest) =
     (if 0 \<le> i \<and> i < 256
      then (case bytearray rest of
              Inl e \<Rightarrow> Inl e
            | Inr bs \<Rightarrow> Inr (word_of_int i # bs))
      else Inl ValueError)"

section \<open>typings.py\<close>

record EqProfile =
  hz160 :: int
  hz400 :: int
  hz1000 :: int
  hz2500 :: int
  hz6250 :: int

definition band_ok :: "int \<Rightarrow> bool" where
  "band_ok v = (0 \<le> v \<and> v \<le> 10)"



text \<open>\<open>__iter__\<close>: the fields in declaration order.\<close>

definition astuple :: "EqProfile \<Rightarrow> int list" where
  "astuple p = [hz160 p, hz400 p, hz1000 p, hz2500 p, hz6250 p]"

datatype EqPreset = FLAT | ROCK | METAL | POP | HIPHOP | ELECTRONIC | JAZZ

definition mk_profile :: "int \<Rightarrow> int \<Rightarrow> int \<Rightarrow> int \<Rightarrow> int \<Rightarrow> EqProfile" where
  "mk_profile a b c d e = \<lparr>hz160 = a, hz400 = b, hz1000 = c, hz2500 = d, hz6250 = e\<rparr>"

fun preset_value :: "EqPreset \<Rightarrow> EqProfile" where
  "preset_value FLAT = mk_profile 5 5 5 5 5"
| "preset_value ROCK = mk_profile 8 6 3 5 7"
| "preset_value METAL = mk_profile 8 3 5 7 8"
| "preset_value POP = mk_profile 6 7 8 4 5"
| "preset_value HIPHOP = mk_profile 8 7 6 5 5"
| "preset_value ELECTRONIC = mk_profile 7 4 4 7 6"
| "preset_value JAZZ = mk_profile 4 7 5 4 5"

fun preset_name :: "EqPreset \<Rightarrow> string" where
  "preset_name FLAT = ''FLAT''"
| "preset_name ROCK = ''ROCK''"
| "preset_name METAL = ''METAL''"
| "preset_name POP = ''POP''"
| "preset_name HIPHOP = ''HIPHOP''"
| "preset_name ELECTRONIC = ''ELECTRONIC''"
| "preset_name JAZZ = ''JAZZ''"

text \<open>\<open>EqPreset(profile)\<close>: the member whose value equals the profile, else ValueError.\<close>

definition EqPreset_of :: "EqProfile \<Rightarrow> error + EqPreset" where
  "EqPreset_of p =
     (case filter (\<lambda>m. preset_value m = p)
             [FLAT, ROCK, METAL, POP, HIPHOP, ELECTRONIC, JAZZ] of
        [] \<Rightarrow> Inl ValueError
      | m # _ \<Rightarrow> Inr m)"

datatype AudioSource = BLUETOOTH | AUX | RCA

datatype PlayStatus = PLAYING | PAUSED | STOPPED

record Status =
  audio_source :: AudioSource
  play_status :: PlayStatus
  interaction_sound_enabled :: bool



record MediaInfo =
  title :: "pystr option"
  artist :: "pystr option"
  album :: "pystr option"

section \<open>ble.py: callback registries\<close>

text \<open>
  An \<open>OrderedDict[int, Callable]\<close> is an association list in insertion order. A handler
  acts on whatever its owner closes over (the type \<open>'w\<close>) and may raise: it returns the
  exception, if any, and the state it left behind.
\<close>

type_synonym ('a, 'w) handler = "'a \<Rightarrow> 'w \<Rightarrow> error option \<times> 'w"
type_synonym 'h registry = "(int \<times> 'h) list"

text \<open>\<open>d[k] = v\<close>: an existing key keeps its position, a new key goes last.\<close>

fun setitem :: "int \<Rightarrow> 'h \<Rightarrow> 'h registry \<Rightarrow> 'h registry" where
  "setitem k v [] = [(k, v)]"
| "setitem k v (p # ps) = (if fst p = k then (k, v) # ps else p # setitem k v ps)"


text \<open>
  \<open>_register_callback\<close>: \<open>next(reversed(callback_dict)) + 1\<close> is the last key plus one;
  StopIteration on an empty dictionary gives 1.
\<close>

definition register_callback :: "'h \<Rightarrow> 'h registry \<Rightarrow> int \<times> 'h registry" where
  "register_callback callback callback_dict =
     (let callback_id =
            (case rev callback_dict of
               [] \<Rightarrow> 1
             | p # _ \<Rightarrow> fst p + 1)
      in (callback_id, setitem callback_id callback callback_dict))"


text \<open>
  \<open>for callback in registry.values(): callback(args)\<close>: no try/except around the call, so
  the first exception leaves the loop.
\<close>

fun dispatch :: "('a, 'w) handler list \<Rightarrow> 'a \<Rightarrow> 'w \<Rightarrow> error option \<times> 'w" where
  "dispatch [] a w = (None, w)"
| "dispatch (callback # rest) a w =
     (case callback a w of
        (Some e, w') \<Rightarrow> (Some e, w')
      | (None, w') \<Rightarrow> dispatch rest a w')"

definition values_of :: "'h registry \<Rightarrow> 'h list" where
  "values_of d = map snd d"

section \<open>ble.py: the facade and its notification handlers\<close>

record 'w facade =
  volume_change_callbacks :: "(int, 'w) handler registry"
  media_info_callbacks :: "(MediaInfo, 'w) handler registry"
  disconnect_callbacks :: "(unit, 'w) handler registry"
  status_callbacks :: "(Status, 'w) handler registry"
  equalizer_callbacks :: "(EqProfile, 'w) handler registry"
  media_info_buffer :: "byte list"

definition facade_init :: "'w facade" where
  "facade_init =
     \<lparr>volume_change_callbacks = [], media_info_callbacks = [],
      disconnect_callbacks = [], status_callbacks = [], equalizer_callbacks = [],
      media_info_buffer = []\<rparr>"

definition media_info_ending_bytes :: "byte list" where
  "media_info_ending_bytes = [0x00, 0x00, 0x00, 0xFF, 0x00, 0x00, 0x00, 0x00]"

definition register_disconnect_callback ::
    "(unit, 'w) handler \<Rightarrow> 'w facade \<Rightarrow> int \<times> 'w facade" where
  "register_disconnect_callback callback s =
     (case register_callback callback (disconnect_callbacks s) of
        (i, d) \<Rightarrow> (i, s\<lparr>disconnect_callbacks := d\<rparr>))"

definition register_status_callback ::
    "(Status, 'w) handler \<Rightarrow> 'w facade \<Rightarrow> int \<times> 'w facade" where
  "register_status_callback callback s =
     (case register_callback callback (status_callbacks s) of
        (i, d) \<Rightarrow> (i, s\<lparr>status_callbacks := d\<rparr>))"

definition register_volume_callback ::
    "(int, 'w) handler \<Rightarrow> 'w facade \<Rightarrow> int \<times> 'w facade" where
  "register_volume_callback callback s =
     (case register_callback callback (volume_change_callbacks s) of
        (i, d) \<Rightarrow> (i, s\<lparr>volume_change_callbacks := d\<rparr>))"

definition register_equalizer_callback ::
    "(EqProfile, 'w) handler \<Rightarrow> 'w facade \<Rightarrow> int \<times> 'w facade" where
  "register_equalizer_callback callback s =
     (case register_callback callback (equalizer_callbacks s) of
        (i, d) \<Rightarrow> (i, s\<lparr>equalizer_callbacks := d\<rparr>))"

definition register_media_info_callback ::
    "(MediaInfo, 'w) handler \<Rightarrow> 'w facade \<Rightarrow> int \<times> 'w facade" where
  "register_media_info_callback callback s =
     (case register_callback callback (media_info_callbacks s) of
        (i, d) \<Rightarrow> (i, s\<lparr>media_info_callbacks := d\<rparr>))"

text \<open>\<open>_on_volume_change\<close>: \<open>data[0]\<close> is read first (for the log line).\<close>

definition on_volume_change :: "'w facade \<Rightarrow> byte list \<Rightarrow> 'w \<Rightarrow> error option \<times> 'w" where
  "on_volume_change s data w =
     (case getitem data 0 of
        Inl e \<Rightarrow> (Some e, w)
      | Inr b \<Rightarrow> dispatch (values_of (volume_change_callbacks s)) (uint b) w)"





subsection \<open>Media-info reassembly\<close>

text \<open>\<open>sub\<close> is a prefix of \<open>xs\<close>.\<close>

fun startswith :: "'a list \<Rightarrow> 'a list \<Rightarrow> bool" where
  "startswith [] xs = True"
| "startswith (p # ps) [] = False"
| "startswith (p # ps) (x # xs) = (p = x \<and> startswith ps xs)"

text \<open>\<open>data.index(sub)\<close>: the lowest position of \<open>sub\<close>; \<open>None\<close> stands for ValueError.\<close>

fun bytes_index :: "byte list \<Rightarrow> byte list \<Rightarrow> nat option" where
  "bytes_index sub [] = (if sub = [] then Some 0 else None)"
| "bytes_index sub (x # xs) =
     (if startswith sub (x # xs) then Some 0
      else map_option Suc (bytes_index sub xs))"

text \<open>
  \<open>_decode_index\<close>: the length byte sits at \<open>offset + 7\<close> (IndexError past the end); the
  slice after it is cut at the end of the data, as Python slices are, and decoded.
\<close>

definition decode_index :: "byte list \<Rightarrow> nat \<Rightarrow> error + pystr" where
  "decode_index data offset =
     (let data_length_pos = offset + 7;
          data_start_pos = data_length_pos + 1
      in case getitem data data_length_pos of
           Inl e \<Rightarrow> Inl e
         | Inr data_length \<Rightarrow>
             decode (take (unat data_length) (drop data_start_pos data)))"

text \<open>
  One of the three blocks of \<open>_handle_media_info\<close>, for the field id \<open>i\<close>:
  \<open>pos = data.index(marker)\<close>, then \<open>None if pos == -1 else _decode_index(data, pos)\<close>.
\<close>

definition field_marker :: "byte \<Rightarrow> byte list" where
  "field_marker i = [0x00, 0x00, 0x00, i, 0x00, 0x6A, 0x00]"

definition extract_field :: "byte list \<Rightarrow> byte \<Rightarrow> error + pystr option" where
  "extract_field data i =
     (case bytes_index (field_marker i) data of
        None \<Rightarrow> Inl ValueError
      | Some start_pos \<Rightarrow>
          if int start_pos = - 1 then Inr None
          else (case decode_index data start_pos of
                  Inl e \<Rightarrow> Inl e
                | Inr s \<Rightarrow> Inr (Some s)))"

definition build_media_info :: "byte list \<Rightarrow> error + MediaInfo" where
  "build_media_info data =
     (case extract_field data 0x01 of
        Inl e \<Rightarrow> Inl e
      | Inr t \<Rightarrow>
          (case extract_field data 0x02 of
             Inl e \<Rightarrow> Inl e
           | Inr a \<Rightarrow>
               (case extract_field data 0x03 of
                  Inl e \<Rightarrow> Inl e
                | Inr al \<Rightarrow> Inr \<lparr>title = t, artist = a, album = al\<rparr>)))"

text \<open>
  \<open>_handle_media_info\<close>: the \<open>try\<close> body builds the MediaInfo and calls the callbacks; the
  \<open>finally\<close> clause replaces the buffer whatever the body did, and an exception of the body
  goes on to the caller.
\<close>

definition handle_media_info :: "'w facade \<Rightarrow> 'w \<Rightarrow> error option \<times> 'w facade \<times> 'w" where
  "handle_media_info s w =
     (let data = media_info_buffer s;
          body = (case build_media_info data of
                    Inl e \<Rightarrow> (Some e, w)
                  | Inr media_info \<Rightarrow>
                      dispatch (values_of (media_info_callbacks s)) media_info w)
      in (fst body, s\<lparr>media_info_buffer := []\<rparr>, snd body))"

text \<open>
  \<open>_on_media_info\<close>: the chunk is written at the end of the buffer, and the test
  \<open>data[-8:] == ending\<close> looks at the chunk that has just arrived.
\<close>

definition on_media_info ::
    "'w facade \<Rightarrow> byte list \<Rightarrow> 'w \<Rightarrow> error option \<times> 'w facade \<times> 'w" where
  "on_media_info s data w =
     (let s' = s\<lparr>media_info_buffer := media_info_buffer s @ data\<rparr>
      in if drop (length data - 8) data = media_info_ending_bytes
         then handle_media_info s' w
         else (None, s', w))"

section \<open>ble.py: operations on the device\<close>

text \<open>
  The wireless client and the bus client are external. Every awaited call on them is
  recorded in a trace and takes its outcome from a script of replies: \<open>Inl e\<close> when the call
  raises \<open>e\<close>, \<open>Inr data\<close> when it returns (\<open>data\<close> is the value of a read and is ignored by
  the other calls). A script that has run out means the peer is gone.
\<close>

datatype charac =
    volume_characteristic
  | control_characteristic
  | led_brightness_characteristic
  | device_name_characteristic
  | eq_characteristic
  | pairing_characteristic
  | media_info_characteristic

datatype effect =
    Connect
  | StartNotify charac
  | Disconnect
  | Read charac
  | Write charac "byte list"
  | Sleep
  | Publish string "pystr option" bool

record world =
  replies :: "(error + byte list) list"
  trace :: "effect list"

type_synonym 'a io = "world \<Rightarrow> (error + 'a) \<times> world"

definition return_io :: "'a \<Rightarrow> 'a io" where
  "return_io a w = (Inr a, w)"

definition raise_io :: "error \<Rightarrow> 'a io" where
  "raise_io e w = (Inl e, w)"

definition lift_io :: "error + 'a \<Rightarrow> 'a io" where
  "lift_io r w = (r, w)"

definition bind_io :: "'a io \<Rightarrow> ('a \<Rightarrow> 'b io) \<Rightarrow> 'b io" where
  "bind_io m f w =
     (case m w of
        (Inl e, w') \<Rightarrow> (Inl e, w')
      | (Inr a, w') \<Rightarrow> f a w')"

definition await_call :: "effect \<Rightarrow> byte list io" where
  "await_call eff w =
     (case replies w of
        [] \<Rightarrow> (Inl TransportError, w\<lparr>trace := trace w @ [eff]\<rparr>)
      | r # rs \<Rightarrow> (r, w\<lparr>replies := rs, trace := trace w @ [eff]\<rparr>))"

definition asyncio_sleep :: "unit io" where
  "asyncio_sleep w = (Inr (), w\<lparr>trace := trace w @ [Sleep]\<rparr>)"

definition read_gatt_char :: "charac \<Rightarrow> byte list io" where
  "read_gatt_char c = await_call (Read c)"

definition write_gatt_char :: "charac \<Rightarrow> byte list \<Rightarrow> unit io" where
  "write_gatt_char c data = bind_io (await_call (Write c data)) (\<lambda>_. return_io ())"

definition start_notify :: "charac \<Rightarrow> unit io" where
  "start_notify c = bind_io (await_call (StartNotify c)) (\<lambda>_. return_io ())"

definition client_aenter :: "unit io" where
  "client_aenter = bind_io (await_call Connect) (\<lambda>_. return_io ())"

definition client_aexit :: "unit io" where
  "client_aexit = bind_io (await_call Disconnect) (\<lambda>_. return_io ())"

text \<open>
  \<open>__aenter__\<close>: the four subscriptions run inside \<open>try\<close>; the bare \<open>except\<close> awaits the
  client's \<open>__aexit__\<close> and does not raise again, so control reaches \<open>return self\<close>.
\<close>

definition subscribe_all :: "unit io" where
  "subscribe_all =
     bind_io (start_notify control_characteristic) (\<lambda>_.
     bind_io (start_notify volume_characteristic) (\<lambda>_.
     bind_io (start_notify media_info_characteristic) (\<lambda>_.
     start_notify eq_characteristic)))"

definition aenter :: "unit io" where
  "aenter =
     bind_io client_aenter (\<lambda>_ w.
       case subscribe_all w of
         (Inl e, w') \<Rightarrow> bind_io client_aexit (\<lambda>_. return_io ()) w'
       | (Inr u, w') \<Rightarrow> return_io () w')"

definition set_led_brightness :: "int \<Rightarrow> unit io" where
  "set_led_brightness brightness =
     (if \<not> (0 \<le> brightness \<and> brightness \<le> 35) then raise_io InvalidLedBrightness
      else
        (let actual_brightness = brightness + 35
         in bind_io (lift_io (bytearray [actual_brightness]))
              (\<lambda>buf. write_gatt_char led_brightness_characteristic buf)))"

definition get_led_brightness :: "int io" where
  "get_led_brightness =
     bind_io (read_gatt_char led_brightness_characteristic) (\<lambda>data.
       case getitem data 0 of
         Inl e \<Rightarrow> raise_io e
       | Inr b \<Rightarrow> return_io (uint b - 35))"




section \<open>mqtt.py: the command router\<close>

record config =
  topic_prefix :: string
  mqtt_retain :: bool
  allow_pairing :: bool

text \<open>A task handed to the event loop is the coroutine it will run.\<close>

type_synonym tasks = "unit io list"

definition lower :: "string \<Rightarrow> string" where
  "lower s =
     map (\<lambda>c. if 65 \<le> (of_char c :: nat) \<and> (of_char c :: nat) \<le> 90
               then char_of ((of_char c :: nat) + 32) else c) s"

fun join :: "pystr \<Rightarrow> pystr list \<Rightarrow> pystr" where
  "join sep [] = []"
| "join sep [x] = x"
| "join sep (x # y # ys) = x @ sep @ join sep (y # ys)"

definition preset_to_str :: "EqPreset option \<Rightarrow> pystr" where
  "preset_to_str preset =
     (case preset of
        Some p \<Rightarrow> ascii (lower (preset_name p))
      | None \<Rightarrow> ascii ''custom'')"

definition profile_to_str :: "EqProfile \<Rightarrow> pystr" where
  "profile_to_str eq_profile = join (ascii '' '') (map str_int (astuple eq_profile))"

definition topic :: "config \<Rightarrow> string \<Rightarrow> string" where
  "topic cfg topic_name = topic_prefix cfg @ ''/'' @ topic_name"

definition publish :: "config \<Rightarrow> string \<Rightarrow> pystr option \<Rightarrow> bool option \<Rightarrow> unit io" where
  "publish cfg topic_name payload retain =
     (let r = (case retain of Some b \<Rightarrow> b | None \<Rightarrow> mqtt_retain cfg)
      in bind_io (await_call (Publish topic_name payload r)) (\<lambda>_. return_io ()))"

definition publish_eq_preset :: "config \<Rightarrow> EqPreset option \<Rightarrow> unit io" where
  "publish_eq_preset cfg eq_preset =
     publish cfg (topic cfg ''info/eq_preset'') (Some (preset_to_str eq_preset)) None"


definition publish_individual_eq :: "config \<Rightarrow> string \<Rightarrow> int \<Rightarrow> unit io" where
  "publish_individual_eq cfg hz_str v =
     publish cfg (topic cfg (''info/eq_profile/'' @ hz_str @ ''hz'')) (Some (str_int v)) None"

definition publish_eq_profile :: "config \<Rightarrow> EqProfile \<Rightarrow> unit io" where
  "publish_eq_profile cfg eq_profile =
     bind_io (publish cfg (topic cfg ''info/eq_profile'')
                (Some (profile_to_str eq_profile)) None) (\<lambda>_.
     bind_io (publish_individual_eq cfg ''160'' (hz160 eq_profile)) (\<lambda>_.
     bind_io (publish_individual_eq cfg ''400'' (hz400 eq_profile)) (\<lambda>_.
     bind_io (publish_individual_eq cfg ''1000'' (hz1000 eq_profile)) (\<lambda>_.
     bind_io (publish_individual_eq cfg ''2500'' (hz2500 eq_profile)) (\<lambda>_.
     publish_individual_eq cfg ''6250'' (hz6250 eq_profile))))))"





fun play_status_name :: "PlayStatus \<Rightarrow> string" where
  "play_status_name PLAYING = ''PLAYING''"
| "play_status_name PAUSED = ''PAUSED''"
| "play_status_name STOPPED = ''STOPPED''"

fun audio_source_name :: "AudioSource \<Rightarrow> string" where
  "audio_source_name BLUETOOTH = ''BLUETOOTH''"
| "audio_source_name AUX = ''AUX''"
| "audio_source_name RCA = ''RCA''"

definition publish_status :: "config \<Rightarrow> Status \<Rightarrow> unit io" where
  "publish_status cfg status =
     bind_io (publish cfg (topic cfg ''info/play_status'')
                (Some (ascii (lower (play_status_name (play_status status))))) None) (\<lambda>_.
     bind_io (publish cfg (topic cfg ''info/audio_source'')
                (Some (ascii (lower (audio_source_name (audio_source status))))) None) (\<lambda>_.
     publish cfg (topic cfg ''info/interaction_sound_enabled'')
       (Some (str_int (if interaction_sound_enabled status then 1 else 0))) None))"

subsection \<open>Event handlers registered at construction\<close>

text \<open>
  The handlers only hand coroutines to the running event loop (\<open>_add_task\<close>): their state
  is the list of scheduled tasks.
\<close>

definition sync_publish :: "config \<Rightarrow> string \<Rightarrow> pystr option \<Rightarrow> tasks \<Rightarrow> tasks" where
  "sync_publish cfg topic_name payload ts = ts @ [publish cfg topic_name payload None]"

definition ble_disconnect_callback :: "(unit, tasks) handler" where
  "ble_disconnect_callback u ts = (Some (SystemExit 1), ts)"

definition ble_equalizer_callback :: "config \<Rightarrow> (EqProfile, tasks) handler" where
  "ble_equalizer_callback cfg eq_profile ts =
     (let ts1 = ts @ [publish_eq_profile cfg eq_profile];
          eq_preset = (case EqPreset_of eq_profile of
                         Inl e \<Rightarrow> None
                       | Inr preset \<Rightarrow> Some preset)
      in (None, ts1 @ [publish_eq_preset cfg eq_preset]))"

definition ble_status_callback :: "config \<Rightarrow> (Status, tasks) handler" where
  "ble_status_callback cfg status ts = (None, ts @ [publish_status cfg status])"

definition ble_volume_callback :: "config \<Rightarrow> (int, tasks) handler" where
  "ble_volume_callback cfg volume ts =
     (None, sync_publish cfg (topic cfg ''info/volume'') (Some (str_int volume)) ts)"

definition ble_media_info_callback :: "config \<Rightarrow> (MediaInfo, tasks) handler" where
  "ble_media_info_callback cfg media_info ts =
     (None,
      sync_publish cfg (topic cfg ''info/media/album'') (album media_info)
        (sync_publish cfg (topic cfg ''info/media/artist'') (artist media_info)
          (sync_publish cfg (topic cfg ''info/media/title'') (title media_info) ts)))"

text \<open>\<open>_init_speaker\<close>: six registrations in the order of the source; the ids are dropped.\<close>

definition init_speaker :: "config \<Rightarrow> tasks facade \<Rightarrow> tasks facade" where
  "init_speaker cfg s0 =
     (let s1 = snd (register_disconnect_callback ble_disconnect_callback s0);
          s2 = snd (register_equalizer_callback (ble_equalizer_callback cfg) s1);
          s3 = snd (register_volume_callback (ble_volume_callback cfg) s2);
          s4 = snd (register_status_callback (ble_status_callback cfg) s3);
          s5 = snd (register_volume_callback (ble_volume_callback cfg) s4);
          s6 = snd (register_media_info_callback (ble_media_info_callback cfg) s5)
      in s6)"

section \<open>Sequences of registry operations\<close>





section \<open>Observers for the examples\<close>

text \<open>
  Handlers that a client of the facade could register: one appends what it receives to a
  list, one raises ValueError without doing anything. \<open>listener\<close> is a fresh facade with
  the recording handler registered for media info.
\<close>

definition record_event :: "('a, 'a list) handler" where
  "record_event a seen = (None, seen @ [a])"


definition listener :: "MediaInfo list facade" where
  "listener = snd (register_media_info_callback record_event facade_init)"

text \<open>
  A media-info message body with all three fields: title "hi", artist "a", album "b".
\<close>

definition three_fields :: "byte list" where
  "three_fields =
     [0x00, 0x00, 0x00, 0x01, 0x00, 0x6A, 0x00, 0x02] @ map of_char ''hi''
     @ [0x00, 0x00, 0x00, 0x02, 0x00, 0x6A, 0x00, 0x01] @ map of_char ''a''
     @ [0x00, 0x00, 0x00, 0x03, 0x00, 0x6A, 0x00, 0x01] @ map of_char ''b''"




section \<open>Properties\<close>

subsection \<open>LED brightness\<close>

lemma uint_byte: "0 \<le> i \<Longrightarrow> i < 256 \<Longrightarrow> uint (word_of_int i :: byte) = i"
  by (simp add: uint_word_of_int take_bit_eq_mod)

text \<open>
  C8. For every integer \<open>b\<close> in 0..35, \<open>set_led_brightness\<close> writes the single byte
  \<open>b + 35\<close> to the LED characteristic, and \<open>get_led_brightness\<close> reading that byte back
  returns \<open>b\<close>. For every \<open>b\<close> outside 0..35 the set operation raises InvalidLedBrightness
  and leaves the transport untouched: no call is made and no reply is consumed.
\<close>

theorem led_brightness_roundtrip:
  "(0 \<le> b \<and> b \<le> 35 \<longrightarrow>
      set_led_brightness b \<lparr>replies = Inr r # rs, trace = l\<rparr>
        = (Inr (), \<lparr>replies = rs,
             trace = l @ [Write led_brightness_characteristic [word_of_int (b + 35)]]\<rparr>)
      \<and> get_led_brightness \<lparr>replies = Inr [word_of_int (b + 35)] # rs', trace = l'\<rparr>
        = (Inr b, \<lparr>replies = rs', trace = l' @ [Read led_brightness_characteristic]\<rparr>))
   \<and> (\<not> (0 \<le> b \<and> b \<le> 35) \<longrightarrow>
        set_led_brightness b w = (Inl InvalidLedBrightness, w))"
proof (intro conjI impI)
  assume r: "0 \<le> b \<and> b \<le> 35"
  then show "set_led_brightness b \<lparr>replies = Inr r # rs, trace = l\<rparr>
        = (Inr (), \<lparr>replies = rs,
             trace = l @ [Write led_brightness_characteristic [word_of_int (b + 35)]]\<rparr>)"
    by (simp add: set_led_brightness_def bind_io_def lift_io_def write_gatt_char_def
        await_call_def return_io_def)
  from r have "uint (word_of_int (b + 35) :: byte) = b + 35"
    by (intro uint_byte) auto
  then show "get_led_brightness \<lparr>replies = Inr [word_of_int (b + 35)] # rs', trace = l'\<rparr>
        = (Inr b, \<lparr>replies = rs', trace = l' @ [Read led_brightness_characteristic]\<rparr>)"
    by (simp add: get_led_brightness_def bind_io_def read_gatt_char_def await_call_def
        return_io_def getitem_def del: of_int_add)
next
  assume "\<not> (0 \<le> b \<and> b \<le> 35)"
  then show "set_led_brightness b w = (Inl InvalidLedBrightness, w)"
    by (simp add: set_led_brightness_def raise_io_def)
qed

theorem led_brightness_roundtrip_witness:
  "set_led_brightness 20 \<lparr>replies = [Inr []], trace = []\<rparr>
     = (Inr (), \<lparr>replies = [], trace = [Write led_brightness_characteristic [55]]\<rparr>)
   \<and> get_led_brightness \<lparr>replies = [Inr [55]], trace = []\<rparr>
     = (Inr 20, \<lparr>replies = [], trace = [Read led_brightness_characteristic]\<rparr>)
   \<and> set_led_brightness 36 \<lparr>replies = [Inr []], trace = []\<rparr>
     = (Inl InvalidLedBrightness, \<lparr>replies = [Inr []], trace = []\<rparr>)
   \<and> set_led_brightness (- 1) \<lparr>replies = [Inr []], trace = []\<rparr>
     = (Inl InvalidLedBrightness, \<lparr>replies = [Inr []], trace = []\<rparr>)"
  using led_brightness_roundtrip
          [of 20 "[]" "[]" "[]" "[]" "[]" "\<lparr>replies = [Inr []], trace = []\<rparr>"]
        led_brightness_roundtrip
          [of 36 "[]" "[]" "[]" "[]" "[]" "\<lparr>replies = [Inr []], trace = []\<rparr>"]
        led_brightness_roundtrip
          [of "- 1" "[]" "[]" "[]" "[]" "[]" "\<lparr>replies = [Inr []], trace = []\<rparr>"]
  by simp

text \<open>
  C10. \<open>get_led_brightness\<close> does not validate the byte it reads: whatever the first byte
  \<open>raw\<close> of the reply is, the result is \<open>raw - 35\<close>, so a raw byte below 35 gives a
  negative brightness, outside the documented range 0..35.
\<close>

theorem get_led_brightness_unvalidated:
  "get_led_brightness \<lparr>replies = Inr (raw # rest) # rs, trace = l\<rparr>
     = (Inr (uint raw - 35),
        \<lparr>replies = rs, trace = l @ [Read led_brightness_characteristic]\<rparr>)
   \<and> (raw < 35 \<longrightarrow>
        (\<exists>v. fst (get_led_brightness \<lparr>replies = Inr (raw # rest) # rs, trace = l\<rparr>) = Inr v
             \<and> v < 0 \<and> \<not> (0 \<le> v \<and> v \<le> 35)))"
proof -
  have run: "get_led_brightness \<lparr>replies = Inr (raw # rest) # rs, trace = l\<rparr>
     = (Inr (uint raw - 35),
        \<lparr>replies = rs, trace = l @ [Read led_brightness_characteristic]\<rparr>)"
    by (simp add: get_led_brightness_def bind_io_def read_gatt_char_def await_call_def
        return_io_def getitem_def)
  have "raw < 35 \<Longrightarrow> uint raw - 35 < 0"
    by (simp add: word_less_def)
  with run show ?thesis by auto
qed

theorem get_led_brightness_unvalidated_witness:
  "(0x22 :: byte) < 35
   \<and> get_led_brightness \<lparr>replies = [Inr [0x22]], trace = []\<rparr>
     = (Inr (- 1), \<lparr>replies = [], trace = [Read led_brightness_characteristic]\<rparr>)
   \<and> \<not> (0 \<le> (- 1 :: int) \<and> (- 1 :: int) \<le> 35)"
  using get_led_brightness_unvalidated [of "0x22" "[]" "[]" "[]"]
  by simp

subsection \<open>Callback ids\<close>













subsection \<open>Media-info reassembly\<close>

lemmas media_defs = on_media_info_def handle_media_info_def build_media_info_def
  extract_field_def field_marker_def decode_index_def decode_def getitem_def
  media_info_ending_bytes_def values_of_def cont_def

lemma listener_eq:
  "listener =
     \<lparr>volume_change_callbacks = [], media_info_callbacks = [(1, record_event)],
      disconnect_callbacks = [], status_callbacks = [], equalizer_callbacks = [],
      media_info_buffer = []\<rparr>"
  by (simp add: listener_def register_media_info_callback_def register_callback_def
      facade_init_def)

text \<open>
  C1. The claim says that an absent marker gives the field \<open>None\<close> and that the message
  with a title "hello", an artist "artist" and no album yields one MediaInfo. The code
  does not: \<open>bytes.index\<close> raises ValueError for an absent marker, so the comparison with
  -1 never holds. Feeding the three chunks of that message to a facade with one recording
  callback appends the first two and, on the sentinel chunk, raises ValueError with no
  MediaInfo delivered; and no buffer at all makes a field \<open>None\<close>.
\<close>

theorem media_info_without_album_raises:
  "on_media_info listener
     ([0x00, 0x00, 0x00, 0x01, 0x00, 0x6A, 0x00, 0x05] @ map of_char ''hello'') []
     = (None,
        listener\<lparr>media_info_buffer :=
          [0x00, 0x00, 0x00, 0x01, 0x00, 0x6A, 0x00, 0x05] @ map of_char ''hello''\<rparr>,
        [])
   \<and> on_media_info
       (listener\<lparr>media_info_buffer :=
          [0x00, 0x00, 0x00, 0x01, 0x00, 0x6A, 0x00, 0x05] @ map of_char ''hello''\<rparr>)
       ([0x00, 0x00, 0x00, 0x02, 0x00, 0x6A, 0x00, 0x06] @ map of_char ''artist'') []
     = (None,
        listener\<lparr>media_info_buffer :=
          [0x00, 0x00, 0x00, 0x01, 0x00, 0x6A, 0x00, 0x05] @ map of_char ''hello''
          @ [0x00, 0x00, 0x00, 0x02, 0x00, 0x6A, 0x00, 0x06] @ map of_char ''artist''\<rparr>,
        [])
   \<and> on_media_info
       (listener\<lparr>media_info_buffer :=
          [0x00, 0x00, 0x00, 0x01, 0x00, 0x6A, 0x00, 0x05] @ map of_char ''hello''
          @ [0x00, 0x00, 0x00, 0x02, 0x00, 0x6A, 0x00, 0x06] @ map of_char ''artist''\<rparr>)
       [0x00, 0x00, 0x00, 0xFF, 0x00, 0x00, 0x00, 0x00] []
     = (Some ValueError, listener, [])
   \<and> extract_field data i \<noteq> Inr None"
proof (intro conjI)
  show "extract_field data i \<noteq> Inr None"
    by (simp add: extract_field_def split: option.splits sum.splits)
qed (simp_all add: media_defs listener_eq)

text \<open>
  C5, as stated, fails: a sentinel that ends the buffer but spans two chunks is not
  detected. The message \<open>three_fields\<close> followed by the sentinel arrives with the
  sentinel cut in the middle; after the second chunk the buffer's last 8 bytes are the
  sentinel, yet nothing is decoded and the buffer is kept, although a decode of that
  buffer would have delivered the MediaInfo.
\<close>

theorem sentinel_across_chunks_not_detected:
  "on_media_info listener (three_fields @ [0x00, 0x00, 0x00, 0xFF]) []
     = (None,
        listener\<lparr>media_info_buffer := three_fields @ [0x00, 0x00, 0x00, 0xFF]\<rparr>, [])
   \<and> on_media_info
       (listener\<lparr>media_info_buffer := three_fields @ [0x00, 0x00, 0x00, 0xFF]\<rparr>)
       [0x00, 0x00, 0x00, 0x00] []
     = (None,
        listener\<lparr>media_info_buffer :=
          three_fields @ [0x00, 0x00, 0x00, 0xFF, 0x00, 0x00, 0x00, 0x00]\<rparr>, [])
   \<and> drop (length (three_fields @ [0x00, 0x00, 0x00, 0xFF, 0x00, 0x00, 0x00, 0x00]) - 8)
       (three_fields @ [0x00, 0x00, 0x00, 0xFF, 0x00, 0x00, 0x00, 0x00])
     = media_info_ending_bytes
   \<and> handle_media_info
       (listener\<lparr>media_info_buffer :=
          three_fields @ [0x00, 0x00, 0x00, 0xFF, 0x00, 0x00, 0x00, 0x00]\<rparr>) []
     = (None, listener,
        [\<lparr>title = Some (ascii ''hi''), artist = Some (ascii ''a''),
          album = Some (ascii ''b'')\<rparr>])"
  by (simp add: media_defs listener_eq three_fields_def record_event_def ascii_def)

lemma ending_bytes_append:
  assumes "drop (length data - 8) data = media_info_ending_bytes"
  shows "drop (length (buf @ data) - 8) (buf @ data) = media_info_ending_bytes"
proof -
  have "length (drop (length data - 8) data) = 8"
    using assms by (simp add: media_info_ending_bytes_def)
  then have "8 \<le> length data" by simp
  then have "length (buf @ data) - 8 = length buf + (length data - 8)" by simp
  then show ?thesis using assms by simp
qed

text \<open>
  C5, amended. For every incoming chunk and every prior buffer content, the reassembler
  first appends the chunk to the buffer and then runs the complete-message decode on the
  appended buffer if and only if the last 8 bytes of the chunk itself are the sentinel;
  otherwise it returns with the appended buffer and calls no handler. When the decode
  runs, the buffer's last 8 bytes are the sentinel as well.
\<close>

theorem on_media_info_trigger:
  "on_media_info s data w =
     (if drop (length data - 8) data = media_info_ending_bytes
      then handle_media_info (s\<lparr>media_info_buffer := media_info_buffer s @ data\<rparr>) w
      else (None, s\<lparr>media_info_buffer := media_info_buffer s @ data\<rparr>, w))
   \<and> (drop (length data - 8) data = media_info_ending_bytes \<longrightarrow>
        drop (length (media_info_buffer s @ data) - 8) (media_info_buffer s @ data)
          = media_info_ending_bytes)"
  using ending_bytes_append by (simp add: on_media_info_def Let_def)

theorem on_media_info_trigger_witness:
  "drop (length [0x00, 0x00, 0x00, 0xFF, 0x00, 0x00, 0x00, 0x00 :: byte] - 8)
     [0x00, 0x00, 0x00, 0xFF, 0x00, 0x00, 0x00, 0x00 :: byte] = media_info_ending_bytes
   \<and> on_media_info (listener\<lparr>media_info_buffer := three_fields\<rparr>)
       [0x00, 0x00, 0x00, 0xFF, 0x00, 0x00, 0x00, 0x00] []
     = handle_media_info
         (listener\<lparr>media_info_buffer :=
            three_fields @ [0x00, 0x00, 0x00, 0xFF, 0x00, 0x00, 0x00, 0x00]\<rparr>) []
   \<and> drop (length (three_fields @ [0x00, 0x00, 0x00, 0xFF, 0x00, 0x00, 0x00, 0x00]) - 8)
       (three_fields @ [0x00, 0x00, 0x00, 0xFF, 0x00, 0x00, 0x00, 0x00])
     = media_info_ending_bytes
   \<and> on_media_info listener [0x00, 0x00, 0x00, 0xFF] []
     = (None, listener\<lparr>media_info_buffer := [0x00, 0x00, 0x00, 0xFF]\<rparr>, [])"
  using on_media_info_trigger
          [of "listener\<lparr>media_info_buffer := three_fields\<rparr>"
              "[0x00, 0x00, 0x00, 0xFF, 0x00, 0x00, 0x00, 0x00]" "[]"]
        on_media_info_trigger [of listener "[0x00, 0x00, 0x00, 0xFF]" "[]"]
  by (simp add: media_info_ending_bytes_def listener_eq)

text \<open>
  C6. Whenever \<open>_handle_media_info\<close> runs, the buffer it leaves is empty, whether the
  extraction and the callbacks succeeded or raised; so after every chunk on which the
  sentinel is detected the next message starts from an empty buffer.
\<close>

theorem buffer_reset_after_handling:
  "media_info_buffer (fst (snd (handle_media_info s w))) = []
   \<and> (drop (length data - 8) data = media_info_ending_bytes \<longrightarrow>
        media_info_buffer (fst (snd (on_media_info s data w))) = [])"
  by (simp add: handle_media_info_def on_media_info_def Let_def)

theorem buffer_reset_after_handling_witness:
  "drop (length ([0x00, 0x00, 0x00, 0x01, 0x00, 0x6A, 0x00, 0x01, 0xFF :: byte]
                  @ [0x00, 0x00, 0x00, 0xFF, 0x00, 0x00, 0x00, 0x00]) - 8)
     ([0x00, 0x00, 0x00, 0x01, 0x00, 0x6A, 0x00, 0x01, 0xFF :: byte]
       @ [0x00, 0x00, 0x00, 0xFF, 0x00, 0x00, 0x00, 0x00]) = media_info_ending_bytes
   \<and> fst (on_media_info listener
            ([0x00, 0x00, 0x00, 0x01, 0x00, 0x6A, 0x00, 0x01, 0xFF]
              @ [0x00, 0x00, 0x00, 0xFF, 0x00, 0x00, 0x00, 0x00]) [])
       = Some UnicodeDecodeError
   \<and> media_info_buffer (fst (snd (on_media_info listener
            ([0x00, 0x00, 0x00, 0x01, 0x00, 0x6A, 0x00, 0x01, 0xFF]
              @ [0x00, 0x00, 0x00, 0xFF, 0x00, 0x00, 0x00, 0x00]) []))) = []
   \<and> media_info_buffer (fst (snd (handle_media_info
            (listener\<lparr>media_info_buffer := three_fields\<rparr>) []))) = []"
  using buffer_reset_after_handling
          [of "listener\<lparr>media_info_buffer := three_fields\<rparr>" "[]"
              "[0x00, 0x00, 0x00, 0x01, 0x00, 0x6A, 0x00, 0x01, 0xFF]
                 @ [0x00, 0x00, 0x00, 0xFF, 0x00, 0x00, 0x00, 0x00]"]
        buffer_reset_after_handling
          [of listener "[]"
              "[0x00, 0x00, 0x00, 0x01, 0x00, 0x6A, 0x00, 0x01, 0xFF]
                 @ [0x00, 0x00, 0x00, 0xFF, 0x00, 0x00, 0x00, 0x00]"]
  by (simp add: media_defs listener_eq)

subsection \<open>Dispatch to the registered handlers\<close>









subsection \<open>Entering the connection\<close>

lemmas io_defs = bind_io_def return_io_def raise_io_def lift_io_def await_call_def
  asyncio_sleep_def read_gatt_char_def write_gatt_char_def start_notify_def
  client_aenter_def client_aexit_def

text \<open>
  C3. The claim says that a failing subscription tears the attempt down and makes the
  connection attempt fail. The teardown happens, the failure does not: the bare
  \<open>except\<close> swallows the exception, so \<open>__aenter__\<close> returns normally with the client
  disconnected. Below the connection succeeds and the first subscription (status) raises;
  then the first three succeed and the fourth (equalizer) raises. In both runs the result
  is a normal return, after a trace that ends with the client's disconnect.
\<close>

theorem aenter_swallows_subscription_failure:
  "aenter \<lparr>replies = [Inr [], Inl TransportError, Inr []], trace = []\<rparr>
     = (Inr (),
        \<lparr>replies = [],
         trace = [Connect, StartNotify control_characteristic, Disconnect]\<rparr>)
   \<and> aenter
       \<lparr>replies = [Inr [], Inr [], Inr [], Inr [], Inl TransportError, Inr []],
        trace = []\<rparr>
     = (Inr (),
        \<lparr>replies = [],
         trace = [Connect, StartNotify control_characteristic,
                  StartNotify volume_characteristic,
                  StartNotify media_info_characteristic,
                  StartNotify eq_characteristic, Disconnect]\<rparr>)"
  by (simp add: aenter_def subscribe_all_def io_defs)

subsection \<open>Handlers registered by the router\<close>

lemmas reg_defs = register_disconnect_callback_def register_status_callback_def
  register_volume_callback_def register_equalizer_callback_def
  register_media_info_callback_def register_callback_def facade_init_def

lemma init_speaker_eq:
  "init_speaker cfg facade_init =
     \<lparr>volume_change_callbacks =
        [(1, ble_volume_callback cfg), (2, ble_volume_callback cfg)],
      media_info_callbacks = [(1, ble_media_info_callback cfg)],
      disconnect_callbacks = [(1, ble_disconnect_callback)],
      status_callbacks = [(1, ble_status_callback cfg)],
      equalizer_callbacks = [(1, ble_equalizer_callback cfg)],
      media_info_buffer = []\<rparr>"
  by (simp add: init_speaker_def reg_defs)

text \<open>
  C9. \<open>_init_speaker\<close> on a fresh facade registers the volume handler twice (ids 1 and
  2) and each other handler once. Every volume notification therefore schedules two
  publish tasks for \<open>info/volume\<close>, each of which, when run, publishes the decimal volume
  to \<open><prefix>/info/volume\<close> with the configured retain flag.
\<close>

theorem volume_published_twice:
  "init_speaker cfg facade_init =
     \<lparr>volume_change_callbacks =
        [(1, ble_volume_callback cfg), (2, ble_volume_callback cfg)],
      media_info_callbacks = [(1, ble_media_info_callback cfg)],
      disconnect_callbacks = [(1, ble_disconnect_callback)],
      status_callbacks = [(1, ble_status_callback cfg)],
      equalizer_callbacks = [(1, ble_equalizer_callback cfg)],
      media_info_buffer = []\<rparr>
   \<and> on_volume_change (init_speaker cfg facade_init) (b # rest) ts
       = (None,
          ts @ [publish cfg (topic cfg ''info/volume'') (Some (str_int (uint b))) None,
                publish cfg (topic cfg ''info/volume'') (Some (str_int (uint b))) None])
   \<and> publish cfg (topic cfg ''info/volume'') (Some (str_int (uint b))) None
         \<lparr>replies = Inr x # rs, trace = l\<rparr>
       = (Inr (),
          \<lparr>replies = rs,
           trace = l @ [Publish (topic_prefix cfg @ ''/info/volume'')
                          (Some (str_int (uint b))) (mqtt_retain cfg)]\<rparr>)"
  by (simp add: init_speaker_eq on_volume_change_def getitem_def values_of_def
      ble_volume_callback_def sync_publish_def publish_def topic_def bind_io_def
      await_call_def return_io_def)

subsection \<open>Per-band equalizer commands\<close>









lemma band_ok_uint: "band_ok (uint (x :: byte)) \<Longrightarrow> 0 \<le> uint x \<and> uint x < 256"
  by (simp add: band_ok_def)









end
